theory Spec2Isabelle
  imports Complex_Main
begin

section \<open>The channel relay (src/socket.ts)\<close>

subsection \<open>Values, sockets, effects\<close>

text \<open>
  A socket handle is identified by a number. Its \<open>readyState\<close> and whether a call of its
  \<open>send\<close> method throws belong to the runtime, as do \<open>JSON.stringify\<close>, the clock, the
  random source and the rendering of values inside template literals; they are fields of
  \<open>runtime\<close>. A JavaScript string is a list of characters, one per code unit, so that
  \<open>length\<close> is \<open>.length\<close>.
\<close>

type_synonym conn = nat

datatype ready_state = CONNECTING | OPEN | CLOSING | CLOSED

text \<open>
  Parsed JSON. An object keeps its properties in insertion order. The value \<open>undefined\<close>
  of a property read is \<open>None\<close> of type \<open>json option\<close>.
\<close>

datatype json =
    JNull
  | JBool bool
  | JNum int
  | JStr string
  | JArr "json list"
  | JObj "(string \<times> json) list"

datatype exn = SyntaxError | TypeError | RangeError | SendError

text \<open>
  What a handler does to the outside: \<open>Send ws m\<close> is one call \<open>ws.send(JSON.stringify(m))\<close>,
  recorded by the envelope \<open>m\<close> that is serialised; \<open>Console s\<close> is one call of
  \<open>console.log\<close> or \<open>console.error\<close>, recorded by the literal text that starts its first
  argument.
\<close>

datatype effect = Send conn json | Console string

text \<open>The effects of a piece of code, and the exception it ends with, if any.\<close>

type_synonym outcome = "effect list \<times> exn option"

text \<open>
  \<open>Map<string, Set<ServerWebSocket>>\<close>: both the map and each set iterate in insertion
  order.
\<close>

type_synonym channels = "(string \<times> conn list) list"

record runtime =
  readyState :: "conn \<Rightarrow> ready_state"
  sendThrows :: "conn \<Rightarrow> bool"
  stringify :: "json \<Rightarrow> string"
  toISOString :: string
  dateNow :: string
  randomSuffix :: string
  errorText :: "exn \<Rightarrow> string"
  toText :: "json option \<Rightarrow> string"

fun sends_of :: "effect list \<Rightarrow> (conn \<times> json) list" where
  "sends_of [] = []"
| "sends_of (Send ws m # es) = (ws, m) # sends_of es"
| "sends_of (Console s # es) = sends_of es"

subsection \<open>Statements, loops and exceptions\<close>

definition skip :: outcome where
  "skip = ([], None)"

definition log :: "string \<Rightarrow> outcome" where
  "log s = ([Console s], None)"

definition raise :: "exn \<Rightarrow> outcome" where
  "raise e = ([], Some e)"

text \<open>A block of statements: it stops at the first one that throws.\<close>

fun seqs :: "outcome list \<Rightarrow> outcome" where
  "seqs [] = ([], None)"
| "seqs ((t, Some e) # rest) = (t, Some e)"
| "seqs ((t, None) # rest) = (case seqs rest of (t', r) \<Rightarrow> (t @ t', r))"

definition forEach :: "'a list \<Rightarrow> ('a \<Rightarrow> outcome) \<Rightarrow> outcome" where
  "forEach xs body = seqs (map body xs)"

fun tryCatch :: "outcome \<Rightarrow> (exn \<Rightarrow> outcome) \<Rightarrow> outcome" where
  "tryCatch (t, None) handler = (t, None)"
| "tryCatch (t, Some e) handler = (case handler e of (t', r) \<Rightarrow> (t @ t', r))"

definition send :: "runtime \<Rightarrow> conn \<Rightarrow> json \<Rightarrow> outcome" where
  "send rt ws m = ([Send ws m], if sendThrows rt ws then Some SendError else None)"

subsection \<open>Objects\<close>

text \<open>An object literal; a property whose value is \<open>undefined\<close> is not serialised.\<close>

fun obj :: "(string \<times> json option) list \<Rightarrow> (string \<times> json) list" where
  "obj [] = []"
| "obj ((k, None) # kvs) = obj kvs"
| "obj ((k, Some v) # kvs) = (k, v) # obj kvs"

text \<open>Reading a property of a value that is neither \<open>null\<close> nor \<open>undefined\<close>.\<close>

fun field :: "json \<Rightarrow> string \<Rightarrow> json option" where
  "field (JObj kvs) k = map_of kvs k"
| "field _ k = None"

text \<open>Reading a property of any value: \<open>null\<close> and \<open>undefined\<close> throw.\<close>

fun getProp :: "json option \<Rightarrow> string \<Rightarrow> exn + json option" where
  "getProp None k = Inl TypeError"
| "getProp (Some JNull) k = Inl TypeError"
| "getProp (Some v) k = Inr (field v k)"

fun setProperty :: "(string \<times> json) list \<Rightarrow> string \<Rightarrow> json \<Rightarrow> (string \<times> json) list" where
  "setProperty [] k v = [(k, v)]"
| "setProperty ((k', v') # kvs) k v =
     (if k' = k then (k, v) # kvs else (k', v') # setProperty kvs k v)"

text \<open>
  Assigning a property, in a module (strict mode): on an object it is stored, on an array it
  is a property that serialisation leaves out, on a primitive it throws.
\<close>

fun assign :: "json \<Rightarrow> string \<Rightarrow> json \<Rightarrow> exn + json" where
  "assign (JObj kvs) k v = Inr (JObj (setProperty kvs k v))"
| "assign (JArr xs) k v = Inr (JArr xs)"
| "assign _ k v = Inl TypeError"

fun truthy :: "json option \<Rightarrow> bool" where
  "truthy None = False"
| "truthy (Some JNull) = False"
| "truthy (Some (JBool b)) = b"
| "truthy (Some (JNum n)) = (n \<noteq> 0)"
| "truthy (Some (JStr s)) = (s \<noteq> [])"
| "truthy (Some (JArr xs)) = True"
| "truthy (Some (JObj kvs)) = True"

text \<open>A value inside a template literal: a string stands for itself.\<close>

fun template :: "runtime \<Rightarrow> json option \<Rightarrow> string" where
  "template rt (Some (JStr s)) = s"
| "template rt v = toText rt v"

text \<open>\<open>s.slice(start, end)\<close> for indices that are not negative.\<close>

definition slice :: "string \<Rightarrow> nat \<Rightarrow> nat \<Rightarrow> string" where
  "slice s start end = take (end - start) (drop start s)"

subsection \<open>The channel registry\<close>

definition mapGet :: "channels \<Rightarrow> string \<Rightarrow> conn list option" where
  "mapGet chans name = map_of chans name"

definition mapHas :: "channels \<Rightarrow> string \<Rightarrow> bool" where
  "mapHas chans name = (map_of chans name \<noteq> None)"

fun mapSet :: "channels \<Rightarrow> string \<Rightarrow> conn list \<Rightarrow> channels" where
  "mapSet [] name v = [(name, v)]"
| "mapSet ((name', v') # rest) name v =
     (if name' = name then (name, v) # rest else (name', v') # mapSet rest name v)"

definition setAdd :: "conn \<Rightarrow> conn list \<Rightarrow> conn list" where
  "setAdd ws clients = (if ws \<in> set clients then clients else clients @ [ws])"

definition setDelete :: "conn \<Rightarrow> conn list \<Rightarrow> conn list" where
  "setDelete ws clients = removeAll ws clients"

text \<open>The members of a channel; a channel that does not exist has none.\<close>

definition members :: "channels \<Rightarrow> string \<Rightarrow> conn list" where
  "members chans name = (case mapGet chans name of None \<Rightarrow> [] | Some clients \<Rightarrow> clients)"

text \<open>\<open>!channelName || typeof channelName !== "string"\<close> gives \<open>None\<close>.\<close>

definition channelNameOf :: "json \<Rightarrow> string option" where
  "channelNameOf data =
     (case field data ''channel'' of
        Some (JStr s) \<Rightarrow> (if s = [] then None else Some s)
      | _ \<Rightarrow> None)"

subsection \<open>Connection open and close\<close>

text \<open>
  The function that \<open>handleConnection\<close> assigns to \<open>ws.close\<close>. It replaces the socket's own
  \<open>close\<close> method; the server calls it nowhere, and the runtime does not call it when the
  socket closes.
\<close>

fun ws_close_loop :: "runtime \<Rightarrow> conn \<Rightarrow> channels \<Rightarrow> channels \<times> outcome" where
  "ws_close_loop rt ws [] = ([], skip)"
| "ws_close_loop rt ws ((channelName, clients) # rest) =
     (if ws \<in> set clients then
        (case forEach (setDelete ws clients) (\<lambda>client.
                 if readyState rt client = OPEN then
                   send rt client (JObj (obj [
                     (''type'', Some (JStr ''system'')),
                     (''message'', Some (JStr ''A user has left the channel'')),
                     (''channel'', Some (JStr channelName))]))
                 else skip) of
           (t, Some e) \<Rightarrow> ((channelName, setDelete ws clients) # rest, (t, Some e))
         | (t, None) \<Rightarrow>
             (case ws_close_loop rt ws rest of
                (rest', (t', r)) \<Rightarrow> ((channelName, setDelete ws clients) # rest', (t @ t', r))))
      else
        (case ws_close_loop rt ws rest of
           (rest', out) \<Rightarrow> ((channelName, clients) # rest', out)))"

definition ws_close :: "runtime \<Rightarrow> channels \<Rightarrow> conn \<Rightarrow> channels \<times> outcome" where
  "ws_close rt chans ws =
     (case ws_close_loop rt ws chans of
        (chans', out) \<Rightarrow> (chans', seqs [log ''Client disconnected'', out]))"

definition handleConnection :: "runtime \<Rightarrow> conn \<Rightarrow> outcome" where
  "handleConnection rt ws =
     seqs [
       log ''New client connected'',
       send rt ws (JObj (obj [
         (''type'', Some (JStr ''system'')),
         (''message'', Some (JStr ''Please join a channel to start chatting''))]))]"

text \<open>The \<open>close\<close> handler registered with the server: the one that runs when a socket closes.\<close>

definition close :: "channels \<Rightarrow> conn \<Rightarrow> channels \<times> effect list" where
  "close chans ws = (map (\<lambda>(channelName, clients). (channelName, setDelete ws clients)) chans, [])"

subsection \<open>Broadcast\<close>

definition broadcastToChannel :: "runtime \<Rightarrow> conn list \<Rightarrow> json \<Rightarrow> outcome" where
  "broadcastToChannel rt clients m =
     forEach clients (\<lambda>client.
       if readyState rt client = OPEN then
         tryCatch (send rt client m) (\<lambda>error. log ''Error sending message to client:'')
       else skip)"

text \<open>\<open>Math.ceil(a / b)\<close>; the division is exact for the lengths and the chunk size here.\<close>

definition mathCeilDiv :: "nat \<Rightarrow> nat \<Rightarrow> nat" where
  "mathCeilDiv a b = nat \<lceil>real a / real b\<rceil>"

function chunkLoop :: "runtime \<Rightarrow> conn list \<Rightarrow> json \<Rightarrow> string \<Rightarrow> nat \<Rightarrow> nat \<Rightarrow> nat \<Rightarrow> outcome" where
  "chunkLoop rt clients message payloadStr chunkSize totalChunks i =
     (if i < totalChunks then
        seqs [
          broadcastToChannel rt clients (JObj (obj [
            (''type'', Some (JStr ''uml:payload:chunk'')),
            (''chunkIndex'', Some (JNum (int i))),
            (''totalChunks'', Some (JNum (int totalChunks))),
            (''chunk'', Some (JStr (slice payloadStr (i * chunkSize)
                                     (min (i * chunkSize + chunkSize) (length payloadStr))))),
            (''channel'', field message ''channel''),
            (''id'', field message ''id'')])),
          chunkLoop rt clients message payloadStr chunkSize totalChunks (Suc i)]
      else skip)"
  by pat_completeness auto
termination
  by (relation "measure (\<lambda>(rt, clients, message, payloadStr, chunkSize, totalChunks, i). totalChunks - i)") auto

declare chunkLoop.simps [simp del]

definition broadcastLargePayload :: "runtime \<Rightarrow> conn list \<Rightarrow> json \<Rightarrow> outcome" where
  "broadcastLargePayload rt clients message =
     (case field message ''payload'' of
        None \<Rightarrow> raise TypeError
      | Some payload \<Rightarrow>
          (let chunkSize = 512 * 1024;
               payloadStr = stringify rt payload;
               totalChunks = mathCeilDiv (length payloadStr) chunkSize
           in seqs [
                log ''Chunking large payload: '',
                broadcastToChannel rt clients (JObj (obj [
                  (''type'', Some (JStr ''uml:payload:chunked:start'')),
                  (''totalChunks'', Some (JNum (int totalChunks))),
                  (''chunkSize'', Some (JNum (int chunkSize))),
                  (''totalSize'', Some (JNum (int (length payloadStr)))),
                  (''channel'', field message ''channel''),
                  (''id'', field message ''id'')])),
                chunkLoop rt clients message payloadStr chunkSize totalChunks 0,
                broadcastToChannel rt clients (JObj (obj [
                  (''type'', Some (JStr ''uml:payload:chunked:complete'')),
                  (''channel'', field message ''channel''),
                  (''id'', field message ''id'')]))]))"

subsection \<open>Domain handlers\<close>

definition handleUmlGenerate :: "runtime \<Rightarrow> conn list \<Rightarrow> json \<Rightarrow> outcome" where
  "handleUmlGenerate rt clients message =
     seqs [
       log ''Handling UML generation request:'',
       broadcastToChannel rt clients (JObj (obj [
         (''type'', Some (JStr ''uml:generate:started'')),
         (''message'', Some (JStr ''UML generation started'')),
         (''payload'', field message ''payload''),
         (''channel'', field message ''channel''),
         (''id'', field message ''id'')]))]"

definition handleUmlPayload :: "runtime \<Rightarrow> conn list \<Rightarrow> json \<Rightarrow> outcome" where
  "handleUmlPayload rt clients message =
     seqs [
       log ''Broadcasting UML payload to clients'',
       (case field message ''payload'' of
          None \<Rightarrow> raise TypeError
        | Some payload \<Rightarrow>
            (let payloadSize = length (stringify rt payload);
                 maxSize = 1024 * 1024
             in if payloadSize > maxSize then broadcastLargePayload rt clients message
                else broadcastToChannel rt clients (JObj (obj [
                       (''type'', Some (JStr ''uml:payload'')),
                       (''payload'', field message ''payload''),
                       (''channel'', field message ''channel''),
                       (''id'', field message ''id'')]))))]"

definition handleCodeOpen :: "runtime \<Rightarrow> conn list \<Rightarrow> json \<Rightarrow> outcome" where
  "handleCodeOpen rt clients message =
     seqs [
       log ''Broadcasting code open request:'',
       broadcastToChannel rt clients (JObj (obj [
         (''type'', Some (JStr ''code:open'')),
         (''payload'', field message ''payload''),
         (''channel'', field message ''channel''),
         (''id'', field message ''id'')]))]"

definition handleCodeHighlight :: "runtime \<Rightarrow> conn list \<Rightarrow> json \<Rightarrow> outcome" where
  "handleCodeHighlight rt clients message =
     seqs [
       log ''Broadcasting code highlight:'',
       broadcastToChannel rt clients (JObj (obj [
         (''type'', Some (JStr ''code:highlight'')),
         (''payload'', field message ''payload''),
         (''channel'', field message ''channel''),
         (''id'', field message ''id'')]))]"

text \<open>
  \<open>if (!payload.p) payload.p = v\<close>: reading throws on \<open>null\<close> and \<open>undefined\<close>, the
  assignment happens when the property is missing or falsy.
\<close>

definition fillIfFalsy :: "json option \<Rightarrow> string \<Rightarrow> json \<Rightarrow> exn + json option" where
  "fillIfFalsy payload k v =
     (case getProp payload k of
        Inl e \<Rightarrow> Inl e
      | Inr cur \<Rightarrow>
          (if truthy cur then Inr payload
           else (case payload of
                   None \<Rightarrow> Inl TypeError
                 | Some p \<Rightarrow> (case assign p k v of Inl e \<Rightarrow> Inl e | Inr p' \<Rightarrow> Inr (Some p')))))"

definition handleCommentUpsert :: "runtime \<Rightarrow> conn list \<Rightarrow> json \<Rightarrow> outcome" where
  "handleCommentUpsert rt clients message =
     seqs [
       log ''Broadcasting comment upsert:'',
       (case fillIfFalsy (field message ''payload'') ''createdAt'' (JStr (toISOString rt)) of
          Inl e \<Rightarrow> raise e
        | Inr payload1 \<Rightarrow>
            (case fillIfFalsy payload1 ''id''
                    (JStr (''comment_'' @ dateNow rt @ ''_'' @ randomSuffix rt)) of
               Inl e \<Rightarrow> raise e
             | Inr payload2 \<Rightarrow>
                 broadcastToChannel rt clients (JObj (obj [
                   (''type'', Some (JStr ''comments:upsert'')),
                   (''payload'', payload2),
                   (''channel'', field message ''channel''),
                   (''id'', field message ''id'')]))))]"

definition handleCommentExport :: "runtime \<Rightarrow> conn list \<Rightarrow> json \<Rightarrow> outcome" where
  "handleCommentExport rt clients message =
     seqs [
       log ''Broadcasting comment export request:'',
       broadcastToChannel rt clients (JObj (obj [
         (''type'', Some (JStr ''comments:export'')),
         (''payload'', field message ''payload''),
         (''channel'', field message ''channel''),
         (''id'', field message ''id'')]))]"

subsection \<open>Dispatch\<close>

text \<open>The \<open>switch\<close> on \<open>data.type\<close>; it compares with \<open>===\<close>.\<close>

definition switchType :: "runtime \<Rightarrow> conn list \<Rightarrow> json \<Rightarrow> outcome" where
  "switchType rt channelClients data =
     (let ty = field data ''type'' in
      if ty = Some (JStr ''uml:generate'') then handleUmlGenerate rt channelClients data
      else if ty = Some (JStr ''uml:payload'') then handleUmlPayload rt channelClients data
      else if ty = Some (JStr ''code:open'') then handleCodeOpen rt channelClients data
      else if ty = Some (JStr ''code:highlight'') then handleCodeHighlight rt channelClients data
      else if ty = Some (JStr ''comments:upsert'') then handleCommentUpsert rt channelClients data
      else if ty = Some (JStr ''comments:export'') then handleCommentExport rt channelClients data
      else log ''Unknown message type: '')"

definition handleSpecialMessage :: "runtime \<Rightarrow> channels \<Rightarrow> conn \<Rightarrow> json \<Rightarrow> outcome" where
  "handleSpecialMessage rt chans ws data =
     (case channelNameOf data of
        None \<Rightarrow>
          send rt ws (JObj (obj [
            (''type'', Some (JStr ''error'')),
            (''message'', Some (JStr ''Channel name is required''))]))
      | Some channelName \<Rightarrow>
          (case mapGet chans channelName of
             None \<Rightarrow>
               send rt ws (JObj (obj [
                 (''type'', Some (JStr ''error'')),
                 (''message'', Some (JStr ''You must join the channel first''))]))
           | Some channelClients \<Rightarrow>
               if ws \<notin> set channelClients then
                 send rt ws (JObj (obj [
                   (''type'', Some (JStr ''error'')),
                   (''message'', Some (JStr ''You must join the channel first''))]))
               else
                 tryCatch (switchType rt channelClients data) (\<lambda>error.
                   seqs [
                     log ''Error handling '',
                     broadcastToChannel rt channelClients (JObj (obj [
                       (''type'', Some (JStr ''error'')),
                       (''message'', Some (JStr (''Failed to handle '' @
                           template rt (field data ''type'') @ '': '' @ errorText rt error))),
                       (''channel'', Some (JStr channelName))]))])))"

definition handleJoin :: "runtime \<Rightarrow> channels \<Rightarrow> conn \<Rightarrow> json \<Rightarrow> channels \<times> outcome" where
  "handleJoin rt chans ws data =
     (case channelNameOf data of
        None \<Rightarrow>
          (chans, send rt ws (JObj (obj [
                    (''type'', Some (JStr ''error'')),
                    (''message'', Some (JStr ''Channel name is required''))])))
      | Some channelName \<Rightarrow>
          (let chans1 = (if mapHas chans channelName then chans else mapSet chans channelName []);
               channelClients = setAdd ws (members chans1 channelName)
           in (mapSet chans1 channelName channelClients,
               seqs [
                 send rt ws (JObj (obj [
                   (''type'', Some (JStr ''system'')),
                   (''message'', Some (JStr (''Joined channel: '' @ channelName))),
                   (''channel'', Some (JStr channelName))])),
                 log ''Sending message to client:'',
                 send rt ws (JObj (obj [
                   (''type'', Some (JStr ''system'')),
                   (''message'', Some (JObj (obj [
                      (''id'', field data ''id''),
                      (''result'', Some (JStr (''Connected to channel: '' @ channelName)))]))),
                   (''channel'', Some (JStr channelName))])),
                 forEach channelClients (\<lambda>client.
                   if client \<noteq> ws \<and> readyState rt client = OPEN then
                     send rt client (JObj (obj [
                       (''type'', Some (JStr ''system'')),
                       (''message'', Some (JStr ''A new user has joined the channel'')),
                       (''channel'', Some (JStr channelName))]))
                   else skip)])))"

definition handleChat :: "runtime \<Rightarrow> channels \<Rightarrow> conn \<Rightarrow> json \<Rightarrow> outcome" where
  "handleChat rt chans ws data =
     (case channelNameOf data of
        None \<Rightarrow>
          send rt ws (JObj (obj [
            (''type'', Some (JStr ''error'')),
            (''message'', Some (JStr ''Channel name is required''))]))
      | Some channelName \<Rightarrow>
          (case mapGet chans channelName of
             None \<Rightarrow>
               send rt ws (JObj (obj [
                 (''type'', Some (JStr ''error'')),
                 (''message'', Some (JStr ''You must join the channel first''))]))
           | Some channelClients \<Rightarrow>
               if ws \<notin> set channelClients then
                 send rt ws (JObj (obj [
                   (''type'', Some (JStr ''error'')),
                   (''message'', Some (JStr ''You must join the channel first''))]))
               else
                 forEach channelClients (\<lambda>client.
                   if readyState rt client = OPEN then
                     seqs [
                       log ''Broadcasting message to client:'',
                       send rt client (JObj (obj [
                         (''type'', Some (JStr ''broadcast'')),
                         (''message'', field data ''message''),
                         (''sender'', Some (JStr (if client = ws then ''You'' else ''User''))),
                         (''channel'', Some (JStr channelName))]))]
                   else skip)))"

text \<open>
  The \<open>message\<close> handler. Its argument is the result of \<open>JSON.parse\<close> on the frame,
  \<open>None\<close> when parsing throws. Nothing escapes its \<open>try\<close>.
\<close>

definition message :: "runtime \<Rightarrow> channels \<Rightarrow> conn \<Rightarrow> json option \<Rightarrow> channels \<times> effect list" where
  "message rt chans ws parsed =
     (case (case parsed of
              None \<Rightarrow> (chans, raise SyntaxError)
            | Some data \<Rightarrow>
                (case getProp (Some data) ''type'' of
                   Inl e \<Rightarrow> (chans, raise e)
                 | Inr ty \<Rightarrow>
                     if ty = Some (JStr ''join'') then handleJoin rt chans ws data
                     else if ty = Some (JStr ''message'') then (chans, handleChat rt chans ws data)
                     else (chans, handleSpecialMessage rt chans ws data))) of
        (chans', body) \<Rightarrow>
          (chans', fst (tryCatch (seqs [log ''Received message from client:'', body])
                          (\<lambda>err. log ''Error handling message:''))))"

section \<open>The client reassembler (src/cursor_mcp_plugin/ui/utils/websocket.ts)\<close>

text \<open>
  A received frame has the shape of the interface \<open>WebSocketMessage\<close>. The chunk sessions
  are a \<open>Map\<close> from message id to session. \<open>JSON.parse\<close>, the conversion of a property key
  to an array index and the text of an array element that is not a string belong to the
  runtime. A call of the store is recorded as an effect.
\<close>

record ws_message =
  msg_type :: string
  msg_channel :: "string option"
  msg_id :: "string option"
  msg_payload :: "json option"
  msg_message :: "json option"

record chunk_session =
  chunks :: "json option list"
  received :: nat
  total :: "json option"

type_synonym sessions = "string \<rightharpoonup> chunk_session"

datatype client_effect = SetDiagram json | SetDirectoryTree json | ClientConsole string


text \<open>\<open>message.id || 'default'\<close>\<close>

definition messageIdOf :: "ws_message \<Rightarrow> string" where
  "messageIdOf m =
     (case msg_id m of None \<Rightarrow> ''default'' | Some s \<Rightarrow> (if s = [] then ''default'' else s))"




definition handleChunkedStart ::
  "sessions \<Rightarrow> ws_message \<Rightarrow> sessions \<times> client_effect list \<times> exn option" where
  "handleChunkedStart chunkedMessages m =
     (case getProp (msg_payload m) ''totalChunks'' of
        Inl e \<Rightarrow> (chunkedMessages, [], Some e)
      | Inr totalChunks \<Rightarrow>
          (case (case totalChunks of
                   Some (JNum n) \<Rightarrow>
                     (if 0 \<le> n \<and> n < 4294967296 then Inr (replicate (nat n) (Some (JStr [])))
                      else Inl RangeError)
                 | _ \<Rightarrow> Inr [Some (JStr [])]) of
             Inl e \<Rightarrow> (chunkedMessages, [], Some e)
           | Inr slots \<Rightarrow>
               (chunkedMessages(messageIdOf m \<mapsto>
                  \<lparr>chunks = slots, received = 0, total = totalChunks\<rparr>),
                [ClientConsole ''Starting chunked message reception: ''], None)))"



text \<open>The store calls among the effects: what is delivered to the application.\<close>

fun deliveries :: "client_effect list \<Rightarrow> client_effect list" where
  "deliveries [] = []"
| "deliveries (ClientConsole s # es) = deliveries es"
| "deliveries (e # es) = e # deliveries es"

section \<open>Reading the effects\<close>

text \<open>
  What one broadcast of the envelope \<open>m\<close> over a member set amounts to: one send to each
  member whose socket is open, in the order of the set.
\<close>

definition fanout :: "runtime \<Rightarrow> conn list \<Rightarrow> json \<Rightarrow> (conn \<times> json) list" where
  "fanout rt clients m =
     map (\<lambda>client. (client, m)) (filter (\<lambda>client. readyState rt client = OPEN) clients)"

text \<open>
  The registry as a \<open>Map\<close> of \<open>Set\<close>s: no channel name twice, no socket twice in a member
  set.
\<close>

definition wellFormed :: "channels \<Rightarrow> bool" where
  "wellFormed chans =
     (distinct (map fst chans) \<and> list_all (\<lambda>(channelName, clients). distinct clients) chans)"

section \<open>Sample inputs\<close>

text \<open>
  A runtime in which socket 2 is closing, the \<open>send\<close> of socket 4 throws, and a string is
  serialised between double quotes.
\<close>

fun sampleStringify :: "json \<Rightarrow> string" where
  "sampleStringify (JStr s) = CHR 0x22 # s @ [CHR 0x22]"
| "sampleStringify v = ''null''"

definition sampleRuntime :: runtime where
  "sampleRuntime =
     \<lparr>readyState = (\<lambda>c. if c = 2 then CLOSING else OPEN),
      sendThrows = (\<lambda>c. c = 4),
      stringify = sampleStringify,
      toISOString = ''2025-01-01T00:00:00.000Z'',
      dateNow = ''1735689600000'',
      randomSuffix = ''k3j2h1g0f'',
      errorText = (\<lambda>e. ''TypeError''),
      toText = (\<lambda>v. ''undefined'')\<rparr>"

definition sampleFrame :: "string \<Rightarrow> json option \<Rightarrow> json" where
  "sampleFrame ty payload =
     JObj (obj [(''type'', Some (JStr ty)), (''channel'', Some (JStr ''room'')),
                (''id'', Some (JStr ''m1'')), (''payload'', payload)])"




section \<open>Properties of the relay\<close>

subsection \<open>Blocks and broadcasts\<close>

lemma sends_of_append: "sends_of (a @ b) = sends_of a @ sends_of b"
  by (induction a rule: sends_of.induct) simp_all


lemma seqs_log: "seqs (log s # rest) = (Console s # fst (seqs rest), snd (seqs rest))"
  by (simp add: log_def split: prod.splits)

lemma seqs_single: "seqs [x] = x"
  by (cases x; cases "snd x") auto

lemma tryCatch_ok: "snd x = None \<Longrightarrow> tryCatch x h = x"
  by (cases x) simp

lemma broadcastToChannel_Nil: "broadcastToChannel rt [] m = ([], None)"
  by (simp add: broadcastToChannel_def forEach_def)

lemma broadcastToChannel_Cons:
  "broadcastToChannel rt (c # cs) m =
     (if readyState rt c = OPEN then
        (Send c m # (if sendThrows rt c then [Console ''Error sending message to client:''] else [])
           @ fst (broadcastToChannel rt cs m), snd (broadcastToChannel rt cs m))
      else broadcastToChannel rt cs m)"
  by (simp add: broadcastToChannel_def forEach_def send_def log_def skip_def split: prod.splits)

lemma broadcast_never_throws: "snd (broadcastToChannel rt clients m) = None"
  by (induction clients) (simp_all add: broadcastToChannel_Nil broadcastToChannel_Cons)

lemma broadcast_sends: "sends_of (fst (broadcastToChannel rt clients m)) = fanout rt clients m"
  by (induction clients)
     (simp_all add: broadcastToChannel_Nil broadcastToChannel_Cons sends_of_append fanout_def)


lemma count_fanout_notin:
  "client \<notin> set clients \<Longrightarrow> count_list (fanout rt clients m) (client, e) = 0"
  by (induction clients) (auto simp: fanout_def)

lemma count_fanout:
  "distinct clients \<Longrightarrow>
   count_list (fanout rt clients m) (client, e) =
     (if client \<in> set clients \<and> readyState rt client = OPEN \<and> e = m then 1 else 0)"
proof (induction clients)
  case Nil
  then show ?case by (simp add: fanout_def)
next
  case (Cons c cs)
  have step: "fanout rt (c # cs) m =
      (if readyState rt c = OPEN then (c, m) # fanout rt cs m else fanout rt cs m)"
    by (simp add: fanout_def)
  from Cons show ?case
    using count_fanout_notin[of c cs rt m e] by (auto simp: step)
qed

text \<open>
  Claim C8. A call of \<open>broadcastToChannel\<close> with a member set and an envelope never throws,
  whatever the sockets' \<open>send\<close> does, and calls \<open>send\<close> with the envelope on the open members
  and on nothing else, in the order of the set: once on each open member, never on a member
  that is not open, never on a socket outside the set. The function reads the member set and
  returns no new one: it removes nobody.
\<close>

theorem broadcastToChannel_open_members_once:
  "snd (broadcastToChannel rt clients m) = None \<and>
   sends_of (fst (broadcastToChannel rt clients m)) =
     map (\<lambda>client. (client, m)) (filter (\<lambda>client. readyState rt client = OPEN) clients) \<and>
   (distinct clients \<longrightarrow>
      (\<forall>client e. count_list (sends_of (fst (broadcastToChannel rt clients m))) (client, e) =
         (if client \<in> set clients \<and> readyState rt client = OPEN \<and> e = m then 1 else 0)))"
  using count_fanout[of clients rt m]
  by (simp add: broadcast_never_throws broadcast_sends) (simp add: fanout_def)

theorem broadcastToChannel_open_members_once_witness:
  "distinct [1, 2, 4, 3 :: nat] \<and>
   sends_of (fst (broadcastToChannel sampleRuntime [1, 2, 4, 3] (JStr ''x''))) =
     [(1, JStr ''x''), (4, JStr ''x''), (3, JStr ''x'')] \<and>
   count_list (sends_of (fst (broadcastToChannel sampleRuntime [1, 2, 4, 3] (JStr ''x''))))
     (3, JStr ''x'') = 1 \<and>
   count_list (sends_of (fst (broadcastToChannel sampleRuntime [1, 2, 4, 3] (JStr ''x''))))
     (2, JStr ''x'') = 0"
  using broadcastToChannel_open_members_once[of sampleRuntime "[1, 2, 4, 3]" "JStr ''x''"]
  by (simp add: sampleRuntime_def)

subsection \<open>Reaching a domain handler\<close>

lemma getProp_field: "field data k = Some v \<Longrightarrow> getProp (Some data) k = Inr (Some v)"
  by (cases data) simp_all

lemma channelNameOf_Some:
  "field data ''channel'' = Some (JStr channelName) \<Longrightarrow> channelName \<noteq> [] \<Longrightarrow>
   channelNameOf data = Some channelName"
  by (simp add: channelNameOf_def)

lemma message_special:
  assumes "field data ''type'' = Some ty" "ty \<noteq> JStr ''join''" "ty \<noteq> JStr ''message''"
  shows "message rt chans ws (Some data) =
           (chans, fst (tryCatch (seqs [log ''Received message from client:'',
                                        handleSpecialMessage rt chans ws data])
                          (\<lambda>err. log ''Error handling message:'')))"
  using assms by (simp add: message_def getProp_field)

lemma handleSpecialMessage_member:
  assumes "field data ''channel'' = Some (JStr channelName)" "channelName \<noteq> []"
      and "mapGet chans channelName = Some clients" "ws \<in> set clients"
  shows "handleSpecialMessage rt chans ws data =
           tryCatch (switchType rt clients data) (\<lambda>error.
                   seqs [
                     log ''Error handling '',
                     broadcastToChannel rt clients (JObj (obj [
                       (''type'', Some (JStr ''error'')),
                       (''message'', Some (JStr (''Failed to handle '' @
                           template rt (field data ''type'') @ '': '' @ errorText rt error))),
                       (''channel'', Some (JStr channelName))]))])"
  using assms by (simp add: handleSpecialMessage_def channelNameOf_Some)

lemma message_ok:
  "snd body = None \<Longrightarrow> fst (tryCatch (seqs [log s, body]) h) = Console s # fst body"
  by (cases body) (simp add: log_def)

subsection \<open>Payloads, small and large\<close>

text \<open>
  Claim C5. A \<open>uml:payload\<close> frame from a member of the channel it names, whose payload
  serialises to at most 1048576 characters (that length included), leaves the registry as it
  is and is answered by one broadcast, of one \<open>uml:payload\<close> envelope with the payload, the
  channel and the correlation id: the send calls are that envelope once to each open member.
  No send carries a frame of the chunk protocol.
\<close>

theorem small_payload_single_frame:
  assumes "field data ''type'' = Some (JStr ''uml:payload'')"
      and "field data ''channel'' = Some (JStr channelName)" and "channelName \<noteq> []"
      and "mapGet chans channelName = Some clients" and "ws \<in> set clients"
      and "field data ''payload'' = Some payload"
      and "length (stringify rt payload) \<le> 1048576"
  shows "fst (message rt chans ws (Some data)) = chans \<and>
         sends_of (snd (message rt chans ws (Some data))) =
           fanout rt clients (JObj (obj [
             (''type'', Some (JStr ''uml:payload'')),
             (''payload'', Some payload),
             (''channel'', Some (JStr channelName)),
             (''id'', field data ''id'')])) \<and>
         (\<forall>(client, e) \<in> set (sends_of (snd (message rt chans ws (Some data)))).
            field e ''type'' = Some (JStr ''uml:payload''))"
proof -
  let ?env = "JObj (obj [
                (''type'', Some (JStr ''uml:payload'')),
                (''payload'', field data ''payload''),
                (''channel'', field data ''channel''),
                (''id'', field data ''id'')])"
  have sw: "switchType rt clients data =
      (Console ''Broadcasting UML payload to clients'' # fst (broadcastToChannel rt clients ?env), None)"
    using assms(1,6,7)
    by (simp add: switchType_def handleUmlPayload_def seqs_log seqs_single broadcast_never_throws)
  have hs: "handleSpecialMessage rt chans ws data =
      (Console ''Broadcasting UML payload to clients'' # fst (broadcastToChannel rt clients ?env), None)"
    by (simp add: handleSpecialMessage_member[OF assms(2-5)] sw)
  have "message rt chans ws (Some data) =
      (chans, Console ''Received message from client:'' #
              Console ''Broadcasting UML payload to clients'' #
              fst (broadcastToChannel rt clients ?env))"
    by (simp add: message_special[OF assms(1)] hs message_ok)
  then show ?thesis
    using assms(2,6) by (auto simp: broadcast_sends fanout_def)
qed

theorem small_payload_single_frame_witness:
  "length (stringify sampleRuntime (JStr ''abc'')) \<le> 1048576 \<and>
   sends_of (snd (message sampleRuntime [(''room'', [1, 2, 3])] 1
       (Some (sampleFrame ''uml:payload'' (Some (JStr ''abc''))))))
     = [(1, JObj [(''type'', JStr ''uml:payload''), (''payload'', JStr ''abc''),
                  (''channel'', JStr ''room''), (''id'', JStr ''m1'')]),
        (3, JObj [(''type'', JStr ''uml:payload''), (''payload'', JStr ''abc''),
                  (''channel'', JStr ''room''), (''id'', JStr ''m1'')])]"
  using small_payload_single_frame[of "sampleFrame ''uml:payload'' (Some (JStr ''abc''))" "''room''"
              "[(''room'', [1, 2, 3])]" "[1, 2, 3]" 1 "JStr ''abc''" sampleRuntime]
  by (simp add: sampleRuntime_def sampleFrame_def mapGet_def fanout_def)











subsection \<open>Membership and unknown types\<close>

lemma message_chat:
  assumes "field data ''type'' = Some (JStr ''message'')"
  shows "message rt chans ws (Some data) =
           (chans, fst (tryCatch (seqs [log ''Received message from client:'',
                                        handleChat rt chans ws data])
                          (\<lambda>err. log ''Error handling message:'')))"
  using assms by (simp add: message_def getProp_field)

lemma sends_of_reply:
  "sends_of (fst (tryCatch (seqs [log s, send rt ws m]) (\<lambda>err. log s'))) = [(ws, m)]"
  by (simp add: log_def send_def)

lemma not_member_cases:
  "ws \<notin> set (members chans channelName) \<Longrightarrow>
   mapGet chans channelName = None \<or> (\<exists>clients. mapGet chans channelName = Some clients \<and> ws \<notin> set clients)"
  by (cases "mapGet chans channelName") (simp_all add: members_def)

text \<open>
  Claim C3. A frame of type \<open>message\<close> or of one of the six domain types, naming a channel
  that its sender is not a member of (the channel may not exist), is answered by exactly one
  send: the \<open>error\<close> envelope \<open>You must join the channel first\<close>, to the sender. Nothing is
  sent to anybody else and the registry is unchanged.
\<close>

theorem non_member_gets_single_error:
  assumes "field data ''type'' = Some (JStr ty)"
      and "ty \<in> {''message'', ''uml:generate'', ''uml:payload'', ''code:open'', ''code:highlight'',
                  ''comments:upsert'', ''comments:export''}"
      and "field data ''channel'' = Some (JStr channelName)" and "channelName \<noteq> []"
      and "ws \<notin> set (members chans channelName)"
  shows "fst (message rt chans ws (Some data)) = chans \<and>
         sends_of (snd (message rt chans ws (Some data))) =
           [(ws, JObj [(''type'', JStr ''error''),
                       (''message'', JStr ''You must join the channel first'')])]"
proof (cases "ty = ''message''")
  case True
  have "handleChat rt chans ws data = send rt ws (JObj (obj [
                 (''type'', Some (JStr ''error'')),
                 (''message'', Some (JStr ''You must join the channel first''))]))"
    using not_member_cases[OF assms(5)]
    by (auto simp: handleChat_def channelNameOf_Some[OF assms(3,4)])
  then show ?thesis
    using assms(1) True by (simp add: message_chat sends_of_reply)
next
  case False
  have "handleSpecialMessage rt chans ws data = send rt ws (JObj (obj [
                 (''type'', Some (JStr ''error'')),
                 (''message'', Some (JStr ''You must join the channel first''))]))"
    using not_member_cases[OF assms(5)]
    by (auto simp: handleSpecialMessage_def channelNameOf_Some[OF assms(3,4)])
  moreover have "JStr ty \<noteq> JStr ''join''" "JStr ty \<noteq> JStr ''message''"
    using assms(2) False by auto
  ultimately show ?thesis
    using message_special[OF assms(1), of rt chans ws] by (simp add: sends_of_reply)
qed

theorem non_member_gets_single_error_witness:
  "sends_of (snd (message sampleRuntime [(''room'', [1, 2, 3])] 5
       (Some (sampleFrame ''code:open'' None)))) =
     [(5, JObj [(''type'', JStr ''error''), (''message'', JStr ''You must join the channel first'')])] \<and>
   sends_of (snd (message sampleRuntime [(''room'', [1, 2, 3])] 5
       (Some (sampleFrame ''message'' None)))) =
     [(5, JObj [(''type'', JStr ''error''), (''message'', JStr ''You must join the channel first'')])]"
  using non_member_gets_single_error[of "sampleFrame ''code:open'' None" "''code:open''" "''room''" 5 "[(''room'', [1, 2, 3])]" sampleRuntime]
        non_member_gets_single_error[of "sampleFrame ''message'' None" "''message''" "''room''" 5 "[(''room'', [1, 2, 3])]" sampleRuntime]
  by (simp add: sampleFrame_def members_def mapGet_def)




subsection \<open>Exceptions in domain handlers\<close>

lemma seqs_log_broadcast_ok: "snd (seqs [log s, broadcastToChannel rt clients m]) = None"
  by (simp add: seqs_log seqs_single broadcast_never_throws)






subsection \<open>Comment normalisation\<close>

lemma map_of_setProperty:
  "map_of (setProperty kvs k v) k' = (if k' = k then Some v else map_of kvs k')"
  by (induction kvs) auto

lemma fillIfFalsy_object:
  "fillIfFalsy (Some (JObj kvs)) k v =
     Inr (Some (JObj (if truthy (map_of kvs k) then kvs else setProperty kvs k v)))"
  by (simp add: fillIfFalsy_def)

text \<open>
  Claim C7, as stated, fails: the handler fills \<open>createdAt\<close> and \<open>id\<close> when they are falsy,
  not only when they are absent. A payload that carries the id \<open>""\<close> is broadcast with a
  generated id, so a field that was present is not preserved.
\<close>

theorem comment_upsert_empty_id_counterexample:
  "field (JObj [(''id'', JStr ''''), (''file'', JStr ''a.ts''), (''line'', JNum 1),
                (''text'', JStr ''x''), (''createdAt'', JStr ''2024-05-05T10:00:00.000Z'')]) ''id''
     = Some (JStr '''') \<and>
   sends_of (snd (message sampleRuntime [(''room'', [1, 2, 3])] 1
       (Some (sampleFrame ''comments:upsert''
          (Some (JObj [(''id'', JStr ''''), (''file'', JStr ''a.ts''), (''line'', JNum 1),
                       (''text'', JStr ''x''), (''createdAt'', JStr ''2024-05-05T10:00:00.000Z'')]))))))
     = [(1, JObj [(''type'', JStr ''comments:upsert''),
                  (''payload'', JObj [(''id'', JStr ''comment_1735689600000_k3j2h1g0f''),
                       (''file'', JStr ''a.ts''), (''line'', JNum 1),
                       (''text'', JStr ''x''), (''createdAt'', JStr ''2024-05-05T10:00:00.000Z'')]),
                  (''channel'', JStr ''room''), (''id'', JStr ''m1'')]),
        (3, JObj [(''type'', JStr ''comments:upsert''),
                  (''payload'', JObj [(''id'', JStr ''comment_1735689600000_k3j2h1g0f''),
                       (''file'', JStr ''a.ts''), (''line'', JNum 1),
                       (''text'', JStr ''x''), (''createdAt'', JStr ''2024-05-05T10:00:00.000Z'')]),
                  (''channel'', JStr ''room''), (''id'', JStr ''m1'')])]"
  by (simp add: message_def sampleFrame_def handleSpecialMessage_def channelNameOf_def mapGet_def
        switchType_def handleCommentUpsert_def fillIfFalsy_def log_def sampleRuntime_def
        broadcastToChannel_def forEach_def send_def skip_def)

text \<open>
  Claim C7, amended. A \<open>comments:upsert\<close> frame from a member of the channel it names, whose
  payload is an object, leaves the registry as it is and is answered by one broadcast of a
  \<open>comments:upsert\<close> envelope with the channel and the correlation id of the frame. In the
  payload of the envelope, \<open>createdAt\<close> is the original value when that is truthy and the
  server's timestamp when it is absent or falsy (\<open>null\<close>, \<open>false\<close>, \<open>0\<close>, \<open>""\<close>); \<open>id\<close> is the
  original value when that is truthy and the generated id \<open>comment_<time>_<random>\<close> when it
  is absent or falsy; every other property reads as in the original. Both are truthy
  afterwards, given that the timestamp of the runtime is not empty.
\<close>

theorem comment_upsert_normalised:
  assumes "field data ''type'' = Some (JStr ''comments:upsert'')"
      and "field data ''channel'' = Some (JStr channelName)" and "channelName \<noteq> []"
      and "mapGet chans channelName = Some clients" and "ws \<in> set clients"
      and "field data ''payload'' = Some (JObj kvs)"
      and "toISOString rt \<noteq> []"
  shows "fst (message rt chans ws (Some data)) = chans \<and>
         (\<exists>kvs'.
            sends_of (snd (message rt chans ws (Some data))) =
              fanout rt clients (JObj (obj [
                (''type'', Some (JStr ''comments:upsert'')),
                (''payload'', Some (JObj kvs')),
                (''channel'', Some (JStr channelName)),
                (''id'', field data ''id'')])) \<and>
            map_of kvs' ''createdAt'' =
              (if truthy (map_of kvs ''createdAt'') then map_of kvs ''createdAt''
               else Some (JStr (toISOString rt))) \<and>
            map_of kvs' ''id'' =
              (if truthy (map_of kvs ''id'') then map_of kvs ''id''
               else Some (JStr (''comment_'' @ dateNow rt @ ''_'' @ randomSuffix rt))) \<and>
            (\<forall>k. k \<noteq> ''createdAt'' \<and> k \<noteq> ''id'' \<longrightarrow> map_of kvs' k = map_of kvs k) \<and>
            truthy (map_of kvs' ''createdAt'') \<and> truthy (map_of kvs' ''id''))"
proof -
  define kvs1 where "kvs1 = (if truthy (map_of kvs ''createdAt'') then kvs
                             else setProperty kvs ''createdAt'' (JStr (toISOString rt)))"
  define kvs2 where "kvs2 = (if truthy (map_of kvs1 ''id'') then kvs1
        else setProperty kvs1 ''id'' (JStr (''comment_'' @ dateNow rt @ ''_'' @ randomSuffix rt)))"
  let ?env = "JObj (obj [
                (''type'', Some (JStr ''comments:upsert'')),
                (''payload'', Some (JObj kvs2)),
                (''channel'', field data ''channel''),
                (''id'', field data ''id'')])"
  have up: "handleCommentUpsert rt clients data =
      (Console ''Broadcasting comment upsert:'' # fst (broadcastToChannel rt clients ?env), None)"
    using assms(6)
    by (simp add: handleCommentUpsert_def fillIfFalsy_object seqs_log seqs_single
          broadcast_never_throws kvs1_def kvs2_def)
  have sw: "switchType rt clients data =
      (Console ''Broadcasting comment upsert:'' # fst (broadcastToChannel rt clients ?env), None)"
    using assms(1) by (simp add: switchType_def up)
  have hs: "handleSpecialMessage rt chans ws data =
      (Console ''Broadcasting comment upsert:'' # fst (broadcastToChannel rt clients ?env), None)"
    by (simp add: handleSpecialMessage_member[OF assms(2-5)] sw)
  have msg: "message rt chans ws (Some data) =
      (chans, Console ''Received message from client:'' #
              Console ''Broadcasting comment upsert:'' #
              fst (broadcastToChannel rt clients ?env))"
    by (simp add: message_special[OF assms(1)] hs message_ok)
  have c: "map_of kvs2 ''createdAt'' =
              (if truthy (map_of kvs ''createdAt'') then map_of kvs ''createdAt''
               else Some (JStr (toISOString rt)))"
    by (simp add: kvs2_def kvs1_def map_of_setProperty)
  have i: "map_of kvs2 ''id'' =
              (if truthy (map_of kvs ''id'') then map_of kvs ''id''
               else Some (JStr (''comment_'' @ dateNow rt @ ''_'' @ randomSuffix rt)))"
    by (simp add: kvs2_def kvs1_def map_of_setProperty)
  have r: "\<forall>k. k \<noteq> ''createdAt'' \<and> k \<noteq> ''id'' \<longrightarrow> map_of kvs2 k = map_of kvs k"
    by (simp add: kvs2_def kvs1_def map_of_setProperty)
  have t: "truthy (map_of kvs2 ''createdAt'')" "truthy (map_of kvs2 ''id'')"
    using assms(7) by (simp_all add: c i)
  have "sends_of (snd (message rt chans ws (Some data))) =
              fanout rt clients (JObj (obj [
                (''type'', Some (JStr ''comments:upsert'')),
                (''payload'', Some (JObj kvs2)),
                (''channel'', Some (JStr channelName)),
                (''id'', field data ''id'')]))"
    using assms(2) by (simp add: msg broadcast_sends)
  with c i r t show ?thesis
    by (intro conjI exI[of _ kvs2]) (simp_all add: msg)
qed

theorem comment_upsert_normalised_witness:
  "toISOString sampleRuntime \<noteq> [] \<and>
   (\<exists>kvs'.
      sends_of (snd (message sampleRuntime [(''room'', [1, 2, 3])] 1
         (Some (sampleFrame ''comments:upsert''
            (Some (JObj [(''file'', JStr ''a.ts''), (''line'', JNum 1), (''text'', JStr ''x'')])))))) =
        [(1, JObj [(''type'', JStr ''comments:upsert''), (''payload'', JObj kvs'),
                   (''channel'', JStr ''room''), (''id'', JStr ''m1'')]),
         (3, JObj [(''type'', JStr ''comments:upsert''), (''payload'', JObj kvs'),
                   (''channel'', JStr ''room''), (''id'', JStr ''m1'')])] \<and>
      map_of kvs' ''createdAt'' = Some (JStr ''2025-01-01T00:00:00.000Z'') \<and>
      map_of kvs' ''id'' = Some (JStr ''comment_1735689600000_k3j2h1g0f'') \<and>
      map_of kvs' ''text'' = Some (JStr ''x''))"
proof -
  have h: "field (sampleFrame ''comments:upsert''
            (Some (JObj [(''file'', JStr ''a.ts''), (''line'', JNum 1), (''text'', JStr ''x'')])))
             ''type'' = Some (JStr ''comments:upsert'')"
          "field (sampleFrame ''comments:upsert''
            (Some (JObj [(''file'', JStr ''a.ts''), (''line'', JNum 1), (''text'', JStr ''x'')])))
             ''channel'' = Some (JStr ''room'')"
          "''room'' \<noteq> []"
          "mapGet [(''room'', [1, 2, 3])] ''room'' = Some [1, 2, 3]"
          "(1::nat) \<in> set [1, 2, 3]"
          "field (sampleFrame ''comments:upsert''
            (Some (JObj [(''file'', JStr ''a.ts''), (''line'', JNum 1), (''text'', JStr ''x'')])))
             ''payload'' = Some (JObj [(''file'', JStr ''a.ts''), (''line'', JNum 1), (''text'', JStr ''x'')])"
          "toISOString sampleRuntime \<noteq> []"
    by (simp_all add: sampleFrame_def mapGet_def sampleRuntime_def)
  have f: "fanout sampleRuntime [1, 2, 3] m = [(1, m), (3, m)]" for m
    by (simp add: fanout_def sampleRuntime_def)
  have g: "field (sampleFrame ''comments:upsert''
            (Some (JObj [(''file'', JStr ''a.ts''), (''line'', JNum 1), (''text'', JStr ''x'')])))
             ''id'' = Some (JStr ''m1'')"
    by (simp add: sampleFrame_def)
  have v: "toISOString sampleRuntime = ''2025-01-01T00:00:00.000Z''"
          "''comment_'' @ dateNow sampleRuntime @ ''_'' @ randomSuffix sampleRuntime =
             ''comment_1735689600000_k3j2h1g0f''"
    by (simp_all add: sampleRuntime_def)
  have "\<exists>kvs'.
      sends_of (snd (message sampleRuntime [(''room'', [1, 2, 3])] 1
         (Some (sampleFrame ''comments:upsert''
            (Some (JObj [(''file'', JStr ''a.ts''), (''line'', JNum 1), (''text'', JStr ''x'')])))))) =
        [(1, JObj [(''type'', JStr ''comments:upsert''), (''payload'', JObj kvs'),
                   (''channel'', JStr ''room''), (''id'', JStr ''m1'')]),
         (3, JObj [(''type'', JStr ''comments:upsert''), (''payload'', JObj kvs'),
                   (''channel'', JStr ''room''), (''id'', JStr ''m1'')])] \<and>
      map_of kvs' ''createdAt'' = Some (JStr ''2025-01-01T00:00:00.000Z'') \<and>
      map_of kvs' ''id'' = Some (JStr ''comment_1735689600000_k3j2h1g0f'') \<and>
      map_of kvs' ''text'' = Some (JStr ''x'')"
    using conjunct2[OF comment_upsert_normalised[OF h]] unfolding f g v obj.simps
    by (elim exE conjE) (rule exI, intro conjI, assumption, simp_all)
  then show ?thesis
    using h(7) by simp
qed

subsection \<open>Joining and leaving\<close>

lemma mapGet_mapSet:
  "mapGet (mapSet chans name v) name' = (if name' = name then Some v else mapGet chans name')"
  by (induction chans) (auto simp: mapGet_def)

lemma mapSet_same: "mapGet chans name = Some v \<Longrightarrow> mapSet chans name v = chans"
  by (induction chans) (auto simp: mapGet_def)

lemma mapSet_mapSet: "mapSet (mapSet chans name u) name v = mapSet chans name v"
  by (induction chans) auto

lemma handleJoin_registry:
  assumes "channelNameOf data = Some channelName"
  shows "fst (handleJoin rt chans ws data) =
           mapSet chans channelName (setAdd ws (members chans channelName))"
  using assms
  by (auto simp: handleJoin_def Let_def mapHas_def members_def mapGet_mapSet mapSet_mapSet
                 mapGet_def[symmetric])

lemma members_after_join:
  "members (mapSet chans channelName v) name' =
     (if name' = channelName then v else members chans name')"
  by (simp add: members_def mapGet_mapSet)

lemma join_member_unchanged:
  assumes "ws \<in> set (members chans channelName)"
  shows "mapSet chans channelName (setAdd ws (members chans channelName)) = chans"
proof -
  from assms obtain clients where c: "mapGet chans channelName = Some clients" "ws \<in> set clients"
    by (cases "mapGet chans channelName") (auto simp: members_def)
  then show ?thesis
    by (simp add: members_def setAdd_def mapSet_same)
qed

lemma handleJoin_members:
  "members (if mapHas chans channelName then chans else mapSet chans channelName []) channelName
     = members chans channelName"
  by (cases "map_of chans channelName")
     (simp_all add: members_after_join mapHas_def, simp_all add: members_def mapGet_def)

lemma forEach_Nil: "forEach [] body = ([], None)"
  by (simp add: forEach_def)

lemma forEach_Cons: "forEach (x # xs) body = seqs [body x, forEach xs body]"
  by (cases "body x"; cases "snd (body x)")
     (auto simp: forEach_def seqs_single split: prod.splits)

lemma notify_no_throw:
  assumes "\<forall>c \<in> set cs. c \<noteq> ws \<and> readyState rt c = OPEN \<longrightarrow> \<not> sendThrows rt c"
  shows "forEach cs (\<lambda>client. if client \<noteq> ws \<and> readyState rt client = OPEN
                                then send rt client m else skip) =
           (map (\<lambda>c. Send c m) (filter (\<lambda>c. c \<noteq> ws \<and> readyState rt c = OPEN) cs), None)"
  using assms
  by (induction cs) (auto simp: forEach_Nil forEach_Cons send_def skip_def)

lemma sends_of_map_Send: "sends_of (map (\<lambda>c. Send c m) cs) = map (\<lambda>c. (c, m)) cs"
  by (induction cs) simp_all

lemma filter_setAdd:
  "filter (\<lambda>c. c \<noteq> ws \<and> P c) (setAdd ws cs) = filter (\<lambda>c. c \<noteq> ws \<and> P c) cs"
  by (simp add: setAdd_def)

lemma seqs_sends_subset:
  "set (sends_of (fst (seqs outs))) \<subseteq> (\<Union>out \<in> set outs. set (sends_of (fst out)))"
  by (induction outs rule: seqs.induct) (auto simp: sends_of_append split: prod.splits)

lemma forEach_sends_subset:
  "set (sends_of (fst (forEach xs body))) \<subseteq> (\<Union>x \<in> set xs. set (sends_of (fst (body x))))"
  using seqs_sends_subset[of "map body xs"] by (auto simp: forEach_def)

lemma tryCatch_log_sends: "sends_of (fst (tryCatch x (\<lambda>err. log s))) = sends_of (fst x)"
  by (cases x; cases "snd x") (auto simp: log_def sends_of_append)

lemma message_join:
  assumes "field data ''type'' = Some (JStr ''join'')"
  shows "message rt chans ws (Some data) =
           (fst (handleJoin rt chans ws data),
            fst (tryCatch (seqs [log ''Received message from client:'',
                                 snd (handleJoin rt chans ws data)])
                   (\<lambda>err. log ''Error handling message:'')))"
  using assms by (simp add: message_def getProp_field split: prod.splits)


text \<open>
  Claim C9, as stated, fails: the notification goes to the other members whose socket is
  open. Socket 2 is a member of \<open>room\<close> and is closing; when socket 1 joins \<open>room\<close> again,
  socket 3 is notified and socket 2 is not.
\<close>

theorem join_closing_member_counterexample:
  "2 \<in> set (members [(''room'', [1, 2, 3])] ''room'') \<and> (2::nat) \<noteq> 1 \<and>
   sends_of (snd (message sampleRuntime [(''room'', [1, 2, 3])] 1
       (Some (sampleFrame ''join'' None)))) =
     [(1, JObj [(''type'', JStr ''system''), (''message'', JStr ''Joined channel: room''),
                (''channel'', JStr ''room'')]),
      (1, JObj [(''type'', JStr ''system''),
                (''message'', JObj [(''id'', JStr ''m1''),
                                    (''result'', JStr ''Connected to channel: room'')]),
                (''channel'', JStr ''room'')]),
      (3, JObj [(''type'', JStr ''system''),
                (''message'', JStr ''A new user has joined the channel''),
                (''channel'', JStr ''room'')])]"
  by (simp add: message_def sampleFrame_def handleJoin_def channelNameOf_def mapHas_def
        members_def mapGet_def setAdd_def forEach_def send_def log_def skip_def sampleRuntime_def)

text \<open>
  Claim C9, amended. A \<open>join\<close> frame naming a channel adds the sender to that channel's
  member set and changes no other channel; when the sender is a member already, the registry
  is unchanged. When no \<open>send\<close> of the sender or of a member throws, the sends of one join are
  the two acknowledgements to the sender followed by one \<open>user joined\<close> notification to each
  other member whose socket is open, and to nobody else. Whatever \<open>send\<close> does, the sender
  never receives the \<open>user joined\<close> notification of its own join.
\<close>

theorem join_registry_and_notifications:
  assumes "field data ''type'' = Some (JStr ''join'')"
      and "field data ''channel'' = Some (JStr channelName)" and "channelName \<noteq> []"
  shows "set (members (fst (message rt chans ws (Some data))) channelName) =
           insert ws (set (members chans channelName)) \<and>
         (\<forall>other. other \<noteq> channelName \<longrightarrow>
            members (fst (message rt chans ws (Some data))) other = members chans other) \<and>
         (ws \<in> set (members chans channelName) \<longrightarrow>
            fst (message rt chans ws (Some data)) = chans) \<and>
         (\<not> sendThrows rt ws \<and>
          (\<forall>c \<in> set (members chans channelName).
             readyState rt c = OPEN \<longrightarrow> \<not> sendThrows rt c) \<longrightarrow>
            sends_of (snd (message rt chans ws (Some data))) =
              [(ws, JObj [(''type'', JStr ''system''),
                          (''message'', JStr (''Joined channel: '' @ channelName)),
                          (''channel'', JStr channelName)]),
               (ws, JObj [(''type'', JStr ''system''),
                          (''message'', JObj (obj [
                             (''id'', field data ''id''),
                             (''result'', Some (JStr (''Connected to channel: '' @ channelName)))])),
                          (''channel'', JStr channelName)])] @
              map (\<lambda>c. (c, JObj [(''type'', JStr ''system''),
                                   (''message'', JStr ''A new user has joined the channel''),
                                   (''channel'', JStr channelName)]))
                  (filter (\<lambda>c. c \<noteq> ws \<and> readyState rt c = OPEN) (members chans channelName))) \<and>
         (ws, JObj [(''type'', JStr ''system''),
                    (''message'', JStr ''A new user has joined the channel''),
                    (''channel'', JStr channelName)])
           \<notin> set (sends_of (snd (message rt chans ws (Some data))))"
proof -
  let ?joined = "JObj [(''type'', JStr ''system''),
                       (''message'', JStr ''A new user has joined the channel''),
                       (''channel'', JStr channelName)]"
  let ?ack1 = "JObj [(''type'', JStr ''system''),
                     (''message'', JStr (''Joined channel: '' @ channelName)),
                     (''channel'', JStr channelName)]"
  let ?ack2 = "JObj [(''type'', JStr ''system''),
                     (''message'', JObj (obj [
                        (''id'', field data ''id''),
                        (''result'', Some (JStr (''Connected to channel: '' @ channelName)))])),
                     (''channel'', JStr channelName)]"
  let ?notify = "\<lambda>client. if client \<noteq> ws \<and> readyState rt client = OPEN
                           then send rt client ?joined else skip"
  let ?cs = "setAdd ws (members chans channelName)"
  have cn: "channelNameOf data = Some channelName"
    by (rule channelNameOf_Some[OF assms(2,3)])
  have reg: "fst (message rt chans ws (Some data)) = mapSet chans channelName ?cs"
    by (simp add: message_join[OF assms(1)] handleJoin_registry[OF cn])
  have body: "snd (handleJoin rt chans ws data) =
      seqs [send rt ws ?ack1, log ''Sending message to client:'', send rt ws ?ack2,
            forEach ?cs ?notify]"
    by (simp add: handleJoin_def cn Let_def handleJoin_members cong: if_cong)
  have snds: "sends_of (snd (message rt chans ws (Some data))) =
      sends_of (fst (seqs [send rt ws ?ack1, log ''Sending message to client:'', send rt ws ?ack2,
            forEach ?cs ?notify]))"
    by (simp add: message_join[OF assms(1)] tryCatch_log_sends seqs_log seqs_single body)
  have m1: "set (members (fst (message rt chans ws (Some data))) channelName) =
           insert ws (set (members chans channelName))"
    by (auto simp: reg members_after_join setAdd_def)
  have m2: "\<forall>other. other \<noteq> channelName \<longrightarrow>
            members (fst (message rt chans ws (Some data))) other = members chans other"
    by (simp add: reg members_after_join)
  have m3: "ws \<in> set (members chans channelName) \<longrightarrow> fst (message rt chans ws (Some data)) = chans"
    by (simp add: reg join_member_unchanged)
  have s1: "sends_of (snd (message rt chans ws (Some data))) =
              [(ws, ?ack1), (ws, ?ack2)] @
              map (\<lambda>c. (c, ?joined))
                  (filter (\<lambda>c. c \<noteq> ws \<and> readyState rt c = OPEN) (members chans channelName))"
    if nt: "\<not> sendThrows rt ws \<and>
            (\<forall>c \<in> set (members chans channelName).
               readyState rt c = OPEN \<longrightarrow> \<not> sendThrows rt c)"
  proof -
    have "\<forall>c \<in> set ?cs. c \<noteq> ws \<and> readyState rt c = OPEN \<longrightarrow> \<not> sendThrows rt c"
      using nt by (auto simp: setAdd_def)
    then have fe: "forEach ?cs ?notify =
        (map (\<lambda>c. Send c ?joined) (filter (\<lambda>c. c \<noteq> ws \<and> readyState rt c = OPEN) ?cs), None)"
      by (rule notify_no_throw)
    have "\<not> sendThrows rt ws" using nt by simp
    then show ?thesis
      by (simp add: snds fe send_def log_def sends_of_map_Send filter_setAdd)
  qed
  have s2: "(ws, ?joined) \<notin> set (sends_of (snd (message rt chans ws (Some data))))"
  proof
    assume "(ws, ?joined) \<in> set (sends_of (snd (message rt chans ws (Some data))))"
    then have "(ws, ?joined) \<in> (\<Union>out \<in> set [send rt ws ?ack1, log ''Sending message to client:'',
                  send rt ws ?ack2, forEach ?cs ?notify]. set (sends_of (fst out)))"
      using seqs_sends_subset unfolding snds by blast
    then have "(ws, ?joined) \<in> set (sends_of (fst (forEach ?cs ?notify)))"
      by (auto simp: send_def log_def)
    then have "(ws, ?joined) \<in> (\<Union>x \<in> set ?cs. set (sends_of (fst (?notify x))))"
      using forEach_sends_subset by blast
    then show False
      by (auto simp: send_def skip_def split: if_splits)
  qed
  from m1 m2 m3 s1 s2 show ?thesis by blast
qed

theorem join_registry_and_notifications_witness:
  "members [(''room'', [1, 2, 3])] ''room'' = [1, 2, 3] \<and>
   \<not> sendThrows sampleRuntime 1 \<and> \<not> sendThrows sampleRuntime 2 \<and>
   \<not> sendThrows sampleRuntime 3 \<and>
   fst (message sampleRuntime [(''room'', [1, 2, 3])] 1 (Some (sampleFrame ''join'' None))) =
     [(''room'', [1, 2, 3])] \<and>
   sends_of (snd (message sampleRuntime [(''room'', [1, 2, 3])] 1
       (Some (sampleFrame ''join'' None)))) =
     [(1, JObj [(''type'', JStr ''system''), (''message'', JStr ''Joined channel: room''),
                (''channel'', JStr ''room'')]),
      (1, JObj [(''type'', JStr ''system''),
                (''message'', JObj [(''id'', JStr ''m1''),
                                    (''result'', JStr ''Connected to channel: room'')]),
                (''channel'', JStr ''room'')]),
      (3, JObj [(''type'', JStr ''system''),
                (''message'', JStr ''A new user has joined the channel''),
                (''channel'', JStr ''room'')])]"
proof -
  have h: "field (sampleFrame ''join'' None) ''type'' = Some (JStr ''join'')"
          "field (sampleFrame ''join'' None) ''channel'' = Some (JStr ''room'')"
          "''room'' \<noteq> []"
    by (simp_all add: sampleFrame_def)
  have m: "members [(''room'', [1, 2, 3])] ''room'' = [1, 2, 3]"
    by (simp add: members_def mapGet_def)
  have nt: "\<not> sendThrows sampleRuntime 1 \<and>
            (\<forall>c \<in> set (members [(''room'', [1, 2, 3])] ''room'').
               readyState sampleRuntime c = OPEN \<longrightarrow> \<not> sendThrows sampleRuntime c)"
    unfolding m by (auto simp: sampleRuntime_def)
  have i: "field (sampleFrame ''join'' None) ''id'' = Some (JStr ''m1'')"
    by (simp add: sampleFrame_def)
  have f: "filter (\<lambda>c. c \<noteq> 1 \<and> readyState sampleRuntime c = OPEN) [1, 2, 3] = [3]"
    by (simp add: sampleRuntime_def)
  note inst = join_registry_and_notifications[OF h, of sampleRuntime "[(''room'', [1, 2, 3])]" 1, unfolded m i f]
  have a: "fst (message sampleRuntime [(''room'', [1, 2, 3])] 1 (Some (sampleFrame ''join'' None))) =
     [(''room'', [1, 2, 3])]"
    using inst by simp
  have b: "sends_of (snd (message sampleRuntime [(''room'', [1, 2, 3])] 1
       (Some (sampleFrame ''join'' None)))) =
     [(1, JObj [(''type'', JStr ''system''), (''message'', JStr ''Joined channel: room''),
                (''channel'', JStr ''room'')]),
      (1, JObj [(''type'', JStr ''system''),
                (''message'', JObj [(''id'', JStr ''m1''),
                                    (''result'', JStr ''Connected to channel: room'')]),
                (''channel'', JStr ''room'')]),
      (3, JObj [(''type'', JStr ''system''),
                (''message'', JStr ''A new user has joined the channel''),
                (''channel'', JStr ''room'')])]"
    using inst nt[unfolded m] by simp
  have t: "\<not> sendThrows sampleRuntime 1" "\<not> sendThrows sampleRuntime 2"
          "\<not> sendThrows sampleRuntime 3"
    by (simp_all add: sampleRuntime_def)
  from m t a b show ?thesis by blast
qed

text \<open>
  Claim C2. With sockets 1 and 3 in \<open>room\<close>, both open, the socket 1 closes. The \<open>close\<close>
  handler of the server removes socket 1 from the member set and sends nothing, so socket 3
  gets no \<open>user left\<close> notification. The function that \<open>handleConnection\<close> stores in
  \<open>ws.close\<close> would send it, but nothing calls that function when a socket closes.
\<close>

theorem close_handler_sends_no_notification:
  "close [(''room'', [1, 3])] 1 = ([(''room'', [3])], []) \<and>
   sends_of (fst (snd (ws_close sampleRuntime [(''room'', [1, 3])] 1))) =
     [(3, JObj [(''type'', JStr ''system''), (''message'', JStr ''A user has left the channel''),
                (''channel'', JStr ''room'')])]"
  by (simp add: close_def setDelete_def ws_close_def forEach_def send_def skip_def log_def
        sampleRuntime_def)

subsection \<open>The registry stays a map of sets\<close>

lemma setAdd_distinct: "distinct clients \<Longrightarrow> distinct (setAdd ws clients)"
  by (simp add: setAdd_def)

lemma setDelete_distinct: "distinct clients \<Longrightarrow> distinct (setDelete ws clients)"
  by (simp add: setDelete_def distinct_removeAll)

lemma map_fst_mapSet:
  "map fst (mapSet chans name v) =
     (if name \<in> set (map fst chans) then map fst chans else map fst chans @ [name])"
  by (induction chans) (fastforce simp: image_iff)+

lemma mapSet_distinct_names: "distinct (map fst chans) \<Longrightarrow> distinct (map fst (mapSet chans name v))"
  by (simp only: map_fst_mapSet split: if_splits) simp

lemma mapSet_all_distinct:
  "list_all (\<lambda>(channelName, clients). distinct clients) chans \<Longrightarrow> distinct v \<Longrightarrow>
   list_all (\<lambda>(channelName, clients). distinct clients) (mapSet chans name v)"
  by (induction chans) auto

lemma mapSet_wellFormed:
  "wellFormed chans \<Longrightarrow> distinct v \<Longrightarrow> wellFormed (mapSet chans name v)"
  by (simp add: wellFormed_def mapSet_distinct_names mapSet_all_distinct)

lemma members_distinct: "wellFormed chans \<Longrightarrow> distinct (members chans name)"
proof (cases "map_of chans name")
  case None
  then show ?thesis by (simp add: members_def mapGet_def)
next
  case (Some clients)
  assume "wellFormed chans"
  then have "list_all (\<lambda>(channelName, clients). distinct clients) chans"
    by (simp add: wellFormed_def)
  moreover have "(name, clients) \<in> set chans"
    using Some by (rule map_of_SomeD)
  ultimately have "distinct clients"
    by (auto simp: list_all_iff)
  then show ?thesis using Some by (simp add: members_def mapGet_def)
qed

lemma message_registry:
  "fst (message rt chans ws parsed) = chans \<or>
   (\<exists>channelName. fst (message rt chans ws parsed) =
       mapSet chans channelName (setAdd ws (members chans channelName)))"
proof (cases parsed)
  case None
  then show ?thesis by (simp add: message_def)
next
  case (Some data)
  show ?thesis
  proof (cases "getProp (Some data) ''type''")
    case (Inl e)
    with Some show ?thesis by (simp add: message_def)
  next
    case (Inr ty)
    show ?thesis
    proof (cases "ty = Some (JStr ''join'')")
      case False
      with Some Inr show ?thesis by (simp add: message_def)
    next
      case True
      with Some Inr have m: "fst (message rt chans ws parsed) = fst (handleJoin rt chans ws data)"
        by (simp add: message_def split: prod.splits)
      show ?thesis
      proof (cases "channelNameOf data")
        case None
        then show ?thesis by (simp add: m handleJoin_def)
      next
        case (Some channelName)
        then show ?thesis using handleJoin_registry[OF Some, of rt chans ws] m by auto
      qed
    qed
  qed
qed

lemma message_wellFormed:
  assumes "wellFormed chans"
  shows "wellFormed (fst (message rt chans ws parsed))"
proof -
  have wf: "wellFormed (mapSet chans channelName (setAdd ws (members chans channelName)))"
    for channelName
    using assms by (intro mapSet_wellFormed setAdd_distinct members_distinct)
  from message_registry[of rt chans ws parsed]
  consider (same) "fst (message rt chans ws parsed) = chans"
    | (joined) channelName where "fst (message rt chans ws parsed) =
         mapSet chans channelName (setAdd ws (members chans channelName))"
    by blast
  then show ?thesis
  proof cases
    case same
    then show ?thesis using assms by simp
  next
    case joined
    then show ?thesis using wf by simp
  qed
qed

lemma close_Cons:
  "fst (close ((channelName, clients) # chans) ws) =
     (channelName, setDelete ws clients) # fst (close chans ws)"
  by (simp add: close_def)

lemma close_Nil: "fst (close [] ws) = []"
  by (simp add: close_def)

lemma close_names: "map fst (fst (close chans ws)) = map fst chans"
  by (induction chans) (simp_all add: close_Nil close_Cons split_paired_all)

lemma close_all_distinct:
  "list_all (\<lambda>(channelName, clients). distinct clients) chans \<Longrightarrow>
   list_all (\<lambda>(channelName, clients). distinct clients) (fst (close chans ws))"
  by (induction chans) (simp_all add: close_Nil close_Cons setDelete_distinct split_paired_all)

lemma close_wellFormed: "wellFormed chans \<Longrightarrow> wellFormed (fst (close chans ws))"
  by (simp add: wellFormed_def close_names close_all_distinct)

lemma close_mapGet:
  "mapGet (fst (close chans ws)) name = map_option (setDelete ws) (mapGet chans name)"
  by (induction chans) (simp_all add: close_Nil close_Cons mapGet_def split_paired_all)

lemma close_removes_everywhere:
  "ws \<notin> set (members (fst (close chans ws)) name) \<and> snd (close chans ws) = []"
  by (cases "mapGet chans name") (simp_all add: members_def close_mapGet setDelete_def, simp_all add: close_def)

section \<open>Properties of the client reassembler\<close>

lemma deliveries_append: "deliveries (a @ b) = deliveries a @ deliveries b"
  by (induction a rule: deliveries.induct) simp_all




end
